theory Spec2Isabelle
  imports Complex_Main "HOL-Library.Word"
begin

unbundle bit_operations_syntax

section \<open>JSON values and exceptions\<close>

text \<open>
  The exceptions the modelled code can raise.  \<open>UnauthorizedError\<close> is the one class the
  repository defines itself (\<^verbatim>\<open>place/user.py\<close>): it carries a message and the flag
  \<open>refreshable\<close>, which the constructor defaults to \<open>True\<close>.  Its message is either a
  string literal of the source or \<^verbatim>\<open>str(answ)\<close>, the rendering of a response, which is
  kept symbolic.  \<open>KeyError\<close>, \<open>ValueError\<close> and \<open>TypeError\<close> are Python's built-in
  exceptions.  \<open>IllTyped\<close> is no exception of Python: it marks the places where the source
  would store, in a field of \<open>User\<close>, a value read from outside whose type is not the
  one the class declares for that field.  The record below is typed as the class
  declares, cannot hold such a value, and the model ends there.

  A JSON document as \<^verbatim>\<open>json.load\<close> and \<^verbatim>\<open>res.json()\<close> return it: \<open>None\<close>, a boolean, a
  number, a string, a list or a dictionary (an association list, looked up by
  \<open>map_of\<close>).  Numbers are exact rationals: Python's floats, and so the readings of
  \<^verbatim>\<open>time()\<close> and the quotients by 1000, are modelled without rounding.
\<close>

datatype json =
    JNull
  | JBool bool
  | JNum rat
  | JStr string
  | JArr "json list"
  | JObj "(string \<times> json) list"

datatype message = Literal string | StrOf json

datatype error =
    KeyError
  | ValueError
  | TypeError
  | IllTyped
  | UnauthorizedError message bool

section \<open>Colours (\<^verbatim>\<open>place/colors.py\<close>)\<close>

subsection \<open>Packed colours\<close>

definition FLT :: int where
  "FLT = 255"

text \<open>
  Python's integers are unbounded and its bitwise operators read a negative number in
  two's complement with infinitely many sign bits; so do the bit operations of \<open>int\<close>.
\<close>

definition unpack :: "int \<Rightarrow> int \<times> int \<times> int" where
  "unpack color =
     (let r = color AND FLT;
          g = (drop_bit 8 color) AND FLT;
          b = (drop_bit 16 color) AND FLT
      in (r, g, b))"

definition pack :: "int \<Rightarrow> int \<Rightarrow> int \<Rightarrow> int" where
  "pack r g b =
     ((FLT AND r) OR
      (push_bit 8 (FLT AND g)) OR
      (push_bit 16 (FLT AND b)))"

subsection \<open>The palette\<close>

text \<open>The enumeration \<open>RedditColor\<close>, its members in definition order and their values.\<close>

datatype RedditColor =
    DARK_RED | RED | ORANGE | YELLOW | DARK_GREEN | GREEN | LIGHT_GREEN | DARK_TEAL
  | TEAL | DARK_BLUE | BLUE | CYAN | INDIGO | PERIWINKLE | DARK_PURPLE | PURPLE
  | PINK | LIGHT_PINK | DARK_BROWN | BROWN | BLACK | GREY | LIGHT_GREY | WHITE

definition members :: "RedditColor list" where
  "members =
     [DARK_RED, RED, ORANGE, YELLOW, DARK_GREEN, GREEN, LIGHT_GREEN, DARK_TEAL,
      TEAL, DARK_BLUE, BLUE, CYAN, INDIGO, PERIWINKLE, DARK_PURPLE, PURPLE,
      PINK, LIGHT_PINK, DARK_BROWN, BROWN, BLACK, GREY, LIGHT_GREY, WHITE]"

fun color_value :: "RedditColor \<Rightarrow> int" where
  "color_value DARK_RED = 1"
| "color_value RED = 2"
| "color_value ORANGE = 3"
| "color_value YELLOW = 4"
| "color_value DARK_GREEN = 6"
| "color_value GREEN = 7"
| "color_value LIGHT_GREEN = 8"
| "color_value DARK_TEAL = 9"
| "color_value TEAL = 10"
| "color_value DARK_BLUE = 12"
| "color_value BLUE = 13"
| "color_value CYAN = 14"
| "color_value INDIGO = 15"
| "color_value PERIWINKLE = 16"
| "color_value DARK_PURPLE = 18"
| "color_value PURPLE = 19"
| "color_value PINK = 22"
| "color_value LIGHT_PINK = 23"
| "color_value DARK_BROWN = 24"
| "color_value BROWN = 25"
| "color_value BLACK = 27"
| "color_value GREY = 29"
| "color_value LIGHT_GREY = 30"
| "color_value WHITE = 31"

text \<open>
  The dictionary \<^verbatim>\<open>_color_map\<close>, a tuple being the list of its components.  Key 1 is
  mapped to the empty tuple, and the keys 7, 9, 10, 15, 16, 22 and 24 are not in it.
\<close>

definition color_map :: "(int \<times> int list) list" where
  "color_map =
     [(1, []),
      (2, [255, 69, 0]),
      (3, [255, 168, 0]),
      (4, [255, 214, 53]),
      (6, [0, 163, 104]),
      (8, [126, 237, 86]),
      (12, [36, 80, 164]),
      (13, [54, 144, 234]),
      (14, [81, 233, 244]),
      (18, [129, 30, 159]),
      (19, [180, 74, 192]),
      (23, [255, 153, 170]),
      (25, [156, 105, 38]),
      (27, [0, 0, 0]),
      (29, [137, 141, 144]),
      (30, [212, 215, 217]),
      (31, [255, 255, 255])]"

text \<open>\<^verbatim>\<open>_color_map[self.value]\<close> raises \<open>KeyError\<close> at a key the dictionary lacks.\<close>

definition to_tuple :: "RedditColor \<Rightarrow> error + int list" where
  "to_tuple color =
     (case map_of color_map (color_value color) of
        None \<Rightarrow> Inl KeyError
      | Some t \<Rightarrow> Inr t)"

text \<open>
  The loop of \<open>closest\<close> over the members still to visit, with the two loop variables
  \<open>closest_color\<close> and \<open>color_distance\<close>.  The unpacking \<^verbatim>\<open>cr, cg, cb = ...\<close> raises
  \<open>ValueError\<close> when the tuple does not have exactly three components.  \<^verbatim>\<open>math.sqrt\<close> is
  the square root of the reals: floating-point rounding is not modelled.
\<close>

fun closest_loop ::
  "RedditColor list \<Rightarrow> int \<Rightarrow> int \<Rightarrow> int \<Rightarrow> RedditColor option \<Rightarrow> real option
     \<Rightarrow> error + RedditColor option" where
  "closest_loop [] r g b closest_color color_distance = Inr closest_color"
| "closest_loop (color # rest) r g b closest_color color_distance =
     (case to_tuple color of
        Inl e \<Rightarrow> Inl e
      | Inr [cr, cg, cb] \<Rightarrow>
          (let color_diff = sqrt (of_int ((r - cr)\<^sup>2 + (g - cg)\<^sup>2 + (b - cb)\<^sup>2))
           in if (case color_distance of None \<Rightarrow> True | Some d \<Rightarrow> color_diff < d)
              then closest_loop rest r g b (Some color) (Some color_diff)
              else closest_loop rest r g b closest_color color_distance)
      | Inr _ \<Rightarrow> Inl ValueError)"

definition closest :: "int \<Rightarrow> int \<Rightarrow> int \<Rightarrow> error + RedditColor option" where
  "closest r g b = closest_loop members r g b None None"

section \<open>Python's operations on JSON values\<close>

text \<open>Truth value of an object, as \<^verbatim>\<open>if v\<close>, \<^verbatim>\<open>not v\<close> and \<^verbatim>\<open>v and ...\<close> test it.\<close>

fun truthy :: "json \<Rightarrow> bool" where
  "truthy JNull = False"
| "truthy (JBool b) = b"
| "truthy (JNum n) = (n \<noteq> 0)"
| "truthy (JStr s) = (s \<noteq> [])"
| "truthy (JArr xs) = (xs \<noteq> [])"
| "truthy (JObj kvs) = (kvs \<noteq> [])"

fun is_substring :: "string \<Rightarrow> string \<Rightarrow> bool" where
  "is_substring k [] = (k = [])"
| "is_substring k (c # s) = (take (length k) (c # s) = k \<or> is_substring k s)"

text \<open>
  \<^verbatim>\<open>k in v\<close> for a string \<open>k\<close>: a key of a dictionary, an element of a list, a substring
  of a string; \<open>TypeError\<close> on \<open>None\<close>, a boolean or a number.
\<close>

fun py_in :: "string \<Rightarrow> json \<Rightarrow> error + bool" where
  "py_in k (JObj kvs) = Inr (map_of kvs k \<noteq> None)"
| "py_in k (JArr xs) = Inr (JStr k \<in> set xs)"
| "py_in k (JStr s) = Inr (is_substring k s)"
| "py_in k _ = Inl TypeError"

text \<open>
  \<^verbatim>\<open>v[k]\<close> for a string \<open>k\<close>: \<open>KeyError\<close> at a key the dictionary lacks, \<open>TypeError\<close>
  on anything that is not a dictionary.
\<close>

fun py_get :: "json \<Rightarrow> string \<Rightarrow> error + json" where
  "py_get (JObj kvs) k = (case map_of kvs k of None \<Rightarrow> Inl KeyError | Some v \<Rightarrow> Inr v)"
| "py_get _ k = Inl TypeError"

text \<open>
  \<^verbatim>\<open>for x in v\<close>: the elements of a list, the keys of a dictionary, the characters of a
  string; \<open>TypeError\<close> otherwise.
\<close>

fun py_iter :: "json \<Rightarrow> error + json list" where
  "py_iter (JArr xs) = Inr xs"
| "py_iter (JObj kvs) = Inr (map (\<lambda>kv. JStr (fst kv)) kvs)"
| "py_iter (JStr s) = Inr (map (\<lambda>c. JStr [c]) s)"
| "py_iter _ = Inl TypeError"

text \<open>\<^verbatim>\<open>v / 1000\<close>: a number (a boolean counts as 0 or 1), \<open>TypeError\<close> otherwise.\<close>

fun true_div_1000 :: "json \<Rightarrow> error + rat" where
  "true_div_1000 (JNum n) = Inr (n / 1000)"
| "true_div_1000 (JBool b) = Inr ((if b then 1 else 0) / 1000)"
| "true_div_1000 _ = Inl TypeError"

section \<open>Accounts (\<^verbatim>\<open>place/user.py\<close>, class \<open>User\<close>)\<close>

text \<open>
  The fields of \<open>User\<close> with the types the class declares; \<open>id\<close> and \<open>next\<close> carry a
  prime because the plain names are taken.  \<open>next\<close> is declared \<^verbatim>\<open>Optional[int]\<close> and
  holds the quotient of a timestamp by 1000 after a placement: a number.
\<close>

record User =
  id' :: string
  name :: string
  token :: string
  refresh :: "string option"
  next' :: "rat option"

text \<open>
  \<^verbatim>\<open>User.__init__\<close>.  \<^verbatim>\<open>id or str(uuid4())\<close> draws a fresh identifier when \<open>id\<close> is \<open>None\<close> or
  empty: \<open>uuid4 k\<close> is the string the \<open>k\<close>-th call of \<^verbatim>\<open>uuid4()\<close> gives, and the number of
  calls made so far is passed along.
\<close>

definition User_init ::
  "string \<Rightarrow> string \<Rightarrow> string option \<Rightarrow> rat option \<Rightarrow> string option \<Rightarrow> (nat \<Rightarrow> string) \<Rightarrow> nat
     \<Rightarrow> User \<times> nat" where
  "User_init name_arg token_arg refresh_arg next_arg id_arg uuid4 k =
     (case (case id_arg of None \<Rightarrow> None | Some i \<Rightarrow> if i \<noteq> [] then Some i else None) of
        Some i \<Rightarrow>
          (\<lparr>id' = i, name = name_arg, token = token_arg, refresh = refresh_arg,
            next' = next_arg\<rparr>, k)
      | None \<Rightarrow>
          (\<lparr>id' = uuid4 k, name = name_arg, token = token_arg, refresh = refresh_arg,
            next' = next_arg\<rparr>, Suc k))"

text \<open>\<^verbatim>\<open>as_dict\<close>: \<^verbatim>\<open>self.refresh or None\<close> and \<^verbatim>\<open>self.next or None\<close> turn "" and 0 into \<open>None\<close>.\<close>

definition as_dict :: "User \<Rightarrow> json" where
  "as_dict self =
     JObj [(''id'', JStr (id' self)),
           (''name'', JStr (name self)),
           (''token'', JStr (token self)),
           (''refresh'', (case refresh self of
                            None \<Rightarrow> JNull
                          | Some s \<Rightarrow> if s \<noteq> [] then JStr s else JNull)),
           (''next'', (case next' self of
                         None \<Rightarrow> JNull
                       | Some t \<Rightarrow> if t \<noteq> 0 then JNum t else JNull))]"

text \<open>
  The property \<open>cooldown\<close>, \<^verbatim>\<open>(self.next or 0) - time()\<close>.  The reading of the clock is the
  argument \<open>now\<close>, here and in every operation below: the clock does not advance during
  one call.
\<close>

definition cooldown :: "User \<Rightarrow> rat \<Rightarrow> rat" where
  "cooldown self now =
     (case next' self of
        None \<Rightarrow> 0
      | Some t \<Rightarrow> if t \<noteq> 0 then t else 0) - now"

text \<open>
  \<^verbatim>\<open>get_username\<close> and \<^verbatim>\<open>refresh_token\<close>.  The two remote services are not modelled: \<open>data\<close>
  is the document the token endpoint answers with, \<open>me\<close> the one the identity endpoint
  answers with.  The first raise of \<open>refresh_token\<close> passes no second argument to
  \<open>UnauthorizedError\<close>, so that \<open>refreshable\<close> has its default.
\<close>

definition get_username :: "User \<Rightarrow> json \<Rightarrow> (error + string) \<times> User" where
  "get_username self data =
     (case py_get data ''subreddit'' of
        Inl e \<Rightarrow> (Inl e, self)
      | Inr sub \<Rightarrow>
     (case py_get sub ''display_name_prefixed'' of
        Inl e \<Rightarrow> (Inl e, self)
      | Inr (JStr n) \<Rightarrow> (Inr n, self\<lparr>name := n\<rparr>)
      | Inr _ \<Rightarrow> (Inl IllTyped, self)))"

definition refresh_token :: "User \<Rightarrow> json \<Rightarrow> json \<Rightarrow> (error + unit) \<times> User" where
  "refresh_token self data me =
     (if (case refresh self of None \<Rightarrow> True | Some s \<Rightarrow> s = []) \<or> refresh self = Some ''null''
      then (Inl (UnauthorizedError (Literal ''No refresh token'') True), self)
      else
     (case py_get data ''access_token'' of
        Inl e \<Rightarrow> (Inl e, self)
      | Inr (JStr t) \<Rightarrow>
          (case get_username (self\<lparr>token := t\<rparr>) me of
             (Inl e, self') \<Rightarrow> (Inl e, self')
           | (Inr n, self') \<Rightarrow> (Inr (), self'))
      | Inr _ \<Rightarrow> (Inl IllTyped, self)))"

subsection \<open>Placing a pixel\<close>

text \<open>
  The argument \<open>color\<close> of \<open>put\<close>: an integer, as \<open>User.put\<close> declares it, or a member of
  \<open>RedditColor\<close>, as \<open>Pool.put\<close> declares it and passes it on.  \<^verbatim>\<open>RedditColor(color)\<close>, which
  the logging call evaluates first, raises \<open>ValueError\<close> at an integer that is no
  member's value; the format \<^verbatim>\<open>%d\<close> of \<open>get_payload\<close> raises \<open>TypeError\<close> at a member, the
  enumeration being a plain \<open>Enum\<close>.  The text of the payload is not modelled.
\<close>

datatype color_arg = IntColor int | MemberColor RedditColor

definition RedditColor_call :: "color_arg \<Rightarrow> error + RedditColor" where
  "RedditColor_call color =
     (case color of
        MemberColor m \<Rightarrow> Inr m
      | IntColor c \<Rightarrow>
          (case find (\<lambda>m. color_value m = c) members of
             None \<Rightarrow> Inl ValueError
           | Some m \<Rightarrow> Inr m))"

definition get_payload :: "int \<Rightarrow> int \<Rightarrow> color_arg \<Rightarrow> error + unit" where
  "get_payload x y c =
     (case c of IntColor i \<Rightarrow> Inr () | MemberColor m \<Rightarrow> Inl TypeError)"

text \<open>The threshold \<^verbatim>\<open>60 * 60 * 24 * 31\<close>, in seconds.\<close>

definition cooldown_limit :: rat where
  "cooldown_limit = 60 * 60 * 24 * 31"

text \<open>
  The three statements that both loops of \<open>put\<close> run on the timestamp \<open>v\<close> they find:
  assign \<^verbatim>\<open>self.next = v / 1000\<close>, raise when it is set and more than the threshold ahead,
  return \<open>ret\<close> otherwise.  The assignment comes first, so the raise leaves it in place.
\<close>

definition store_next :: "User \<Rightarrow> rat \<Rightarrow> json \<Rightarrow> bool \<Rightarrow> (error + bool option) \<times> User" where
  "store_next self now v ret =
     (case true_div_1000 v of
        Inl e \<Rightarrow> (Inl e, self)
      | Inr t \<Rightarrow>
          (let self' = self\<lparr>next' := Some t\<rparr>
           in if t \<noteq> 0 \<and> t - now > cooldown_limit
              then (Inl (UnauthorizedError (Literal ''Rate limited: cooldown too long'') False),
                    self')
              else (Inr (Some ret), self')))"

text \<open>The condition of the first \<^verbatim>\<open>if\<close> of \<open>put\<close>, a chain of \<^verbatim>\<open>and\<close> evaluated left to right.\<close>

definition unauthorized_marker :: "json \<Rightarrow> error + bool" where
  "unauthorized_marker answ =
     (case py_in ''success'' answ of
        Inl e \<Rightarrow> Inl e
      | Inr False \<Rightarrow> Inr False
      | Inr True \<Rightarrow>
     (case py_get answ ''success'' of
        Inl e \<Rightarrow> Inl e
      | Inr s \<Rightarrow> if truthy s then Inr False else
     (case py_in ''error'' answ of
        Inl e \<Rightarrow> Inl e
      | Inr False \<Rightarrow> Inr False
      | Inr True \<Rightarrow>
     (case py_get answ ''error'' of
        Inl e \<Rightarrow> Inl e
      | Inr err \<Rightarrow> if \<not> truthy err then Inr False else
     (case py_in ''reason'' err of
        Inl e \<Rightarrow> Inl e
      | Inr False \<Rightarrow> Inr False
      | Inr True \<Rightarrow>
     (case py_get err ''reason'' of
        Inl e \<Rightarrow> Inl e
      | Inr reason \<Rightarrow> Inr (reason = JStr ''UNAUTHORIZED'')))))))"

text \<open>
  The two loops.  Their result is \<open>None\<close> when the loop ends without leaving \<open>put\<close>, and
  otherwise what \<open>put\<close> raises or returns together with the account as it then is.
\<close>

fun data_loop :: "json list \<Rightarrow> User \<Rightarrow> rat \<Rightarrow> ((error + bool option) \<times> User) option" where
  "data_loop [] self now = None"
| "data_loop (act # acts) self now =
     (case py_get act ''data'' of
        Inl e \<Rightarrow> Some (Inl e, self)
      | Inr d \<Rightarrow>
     (case py_in ''nextAvailablePixelTimestamp'' d of
        Inl e \<Rightarrow> Some (Inl e, self)
      | Inr False \<Rightarrow> data_loop acts self now
      | Inr True \<Rightarrow>
     (case py_get d ''nextAvailablePixelTimestamp'' of
        Inl e \<Rightarrow> Some (Inl e, self)
      | Inr v \<Rightarrow> Some (store_next self now v True))))"

definition data_branch :: "json \<Rightarrow> User \<Rightarrow> rat \<Rightarrow> ((error + bool option) \<times> User) option" where
  "data_branch answ self now =
     (case py_in ''data'' answ of
        Inl e \<Rightarrow> Some (Inl e, self)
      | Inr False \<Rightarrow> None
      | Inr True \<Rightarrow>
     (case py_get answ ''data'' of
        Inl e \<Rightarrow> Some (Inl e, self)
      | Inr d \<Rightarrow> if \<not> truthy d then None else
     (case py_get d ''act'' of
        Inl e \<Rightarrow> Some (Inl e, self)
      | Inr a \<Rightarrow>
     (case py_get a ''data'' of
        Inl e \<Rightarrow> Some (Inl e, self)
      | Inr acts \<Rightarrow>
     (case py_iter acts of
        Inl e \<Rightarrow> Some (Inl e, self)
      | Inr xs \<Rightarrow> data_loop xs self now)))))"

fun errors_loop :: "json list \<Rightarrow> User \<Rightarrow> rat \<Rightarrow> ((error + bool option) \<times> User) option" where
  "errors_loop [] self now = None"
| "errors_loop (err # errs) self now =
     (case py_in ''extensions'' err of
        Inl e \<Rightarrow> Some (Inl e, self)
      | Inr False \<Rightarrow> errors_loop errs self now
      | Inr True \<Rightarrow>
     (case py_get err ''extensions'' of
        Inl e \<Rightarrow> Some (Inl e, self)
      | Inr ext \<Rightarrow>
     (case py_in ''nextAvailablePixelTs'' ext of
        Inl e \<Rightarrow> Some (Inl e, self)
      | Inr False \<Rightarrow> errors_loop errs self now
      | Inr True \<Rightarrow>
     (case py_get ext ''nextAvailablePixelTs'' of
        Inl e \<Rightarrow> Some (Inl e, self)
      | Inr v \<Rightarrow> Some (store_next self now v False)))))"

definition errors_branch :: "json \<Rightarrow> User \<Rightarrow> rat \<Rightarrow> ((error + bool option) \<times> User) option" where
  "errors_branch answ self now =
     (case py_in ''errors'' answ of
        Inl e \<Rightarrow> Some (Inl e, self)
      | Inr False \<Rightarrow> None
      | Inr True \<Rightarrow>
     (case py_get answ ''errors'' of
        Inl e \<Rightarrow> Some (Inl e, self)
      | Inr errs \<Rightarrow> if \<not> truthy errs then None else
     (case py_iter errs of
        Inl e \<Rightarrow> Some (Inl e, self)
      | Inr xs \<Rightarrow> errors_loop xs self now)))"

text \<open>
  \<open>User.put\<close>.  \<open>answ\<close> is the document the placement endpoint answers with; a failure of
  the transport is not modelled.  The result is the exception raised or the value
  returned, \<open>None\<close> when the body ends without a \<^verbatim>\<open>return\<close>, and the account afterwards.
\<close>

definition put ::
  "User \<Rightarrow> color_arg \<Rightarrow> int \<Rightarrow> int \<Rightarrow> rat \<Rightarrow> json \<Rightarrow> (error + bool option) \<times> User" where
  "put self color x y now answ =
     (case RedditColor_call color of
        Inl e \<Rightarrow> (Inl e, self)
      | Inr m \<Rightarrow>
     (case get_payload x y color of
        Inl e \<Rightarrow> (Inl e, self)
      | Inr payload \<Rightarrow>
     (case unauthorized_marker answ of
        Inl e \<Rightarrow> (Inl e, self)
      | Inr True \<Rightarrow> (Inl (UnauthorizedError (StrOf answ) True), self)
      | Inr False \<Rightarrow>
     (case data_branch answ self now of
        Some r \<Rightarrow> r
      | None \<Rightarrow>
     (case errors_branch answ self now of
        Some r \<Rightarrow> r
      | None \<Rightarrow> (Inr None, self))))))"

section \<open>The pool (\<^verbatim>\<open>place/user.py\<close>, class \<open>Pool\<close>)\<close>

text \<open>
  The pool is its list \<open>users\<close>.  The file system is a map from paths to the documents
  stored there: \<^verbatim>\<open>json.dump\<close> followed by \<^verbatim>\<open>json.load\<close> is taken to give the document back,
  and \<^verbatim>\<open>os.path.isfile\<close> holds of the paths in the domain.
\<close>

text \<open>
  The arguments \<open>Pool.__init__\<close> passes to \<open>User\<close> for refresh and next,
  \<^verbatim>\<open>el[k] if k in el and el[k] != "null" else None\<close>, and for id, \<^verbatim>\<open>el[k] if k in el else None\<close>.
\<close>

definition field_unless_null :: "json \<Rightarrow> string \<Rightarrow> error + json" where
  "field_unless_null el k =
     (case py_in k el of
        Inl e \<Rightarrow> Inl e
      | Inr False \<Rightarrow> Inr JNull
      | Inr True \<Rightarrow>
     (case py_get el k of
        Inl e \<Rightarrow> Inl e
      | Inr v \<Rightarrow> if v \<noteq> JStr ''null'' then Inr v else Inr JNull))"

definition field_if_present :: "json \<Rightarrow> string \<Rightarrow> error + json" where
  "field_if_present el k =
     (case py_in k el of
        Inl e \<Rightarrow> Inl e
      | Inr False \<Rightarrow> Inr JNull
      | Inr True \<Rightarrow> py_get el k)"

text \<open>A stored value as a field of the declared type.\<close>

fun as_str :: "json \<Rightarrow> error + string" where
  "as_str (JStr s) = Inr s"
| "as_str _ = Inl IllTyped"

fun as_optional_str :: "json \<Rightarrow> error + string option" where
  "as_optional_str JNull = Inr None"
| "as_optional_str (JStr s) = Inr (Some s)"
| "as_optional_str _ = Inl IllTyped"

fun as_optional_num :: "json \<Rightarrow> error + rat option" where
  "as_optional_num JNull = Inr None"
| "as_optional_num (JNum n) = Inr (Some n)"
| "as_optional_num _ = Inl IllTyped"

text \<open>
  One round of the loop of \<open>Pool.__init__\<close>: the five arguments are evaluated in order,
  each with the exceptions Python raises, and then \<open>User\<close> is constructed.
\<close>

definition load_user :: "json \<Rightarrow> (nat \<Rightarrow> string) \<Rightarrow> nat \<Rightarrow> error + User \<times> nat" where
  "load_user el uuid4 k =
     (case py_get el ''name'' of Inl e \<Rightarrow> Inl e | Inr n \<Rightarrow>
     (case py_get el ''token'' of Inl e \<Rightarrow> Inl e | Inr t \<Rightarrow>
     (case field_unless_null el ''refresh'' of Inl e \<Rightarrow> Inl e | Inr r \<Rightarrow>
     (case field_unless_null el ''next'' of Inl e \<Rightarrow> Inl e | Inr nx \<Rightarrow>
     (case field_if_present el ''id'' of Inl e \<Rightarrow> Inl e | Inr i \<Rightarrow>
     (case as_str n of Inl e \<Rightarrow> Inl e | Inr name_arg \<Rightarrow>
     (case as_str t of Inl e \<Rightarrow> Inl e | Inr token_arg \<Rightarrow>
     (case as_optional_str r of Inl e \<Rightarrow> Inl e | Inr refresh_arg \<Rightarrow>
     (case as_optional_num nx of Inl e \<Rightarrow> Inl e | Inr next_arg \<Rightarrow>
     (case as_optional_str i of Inl e \<Rightarrow> Inl e | Inr id_arg \<Rightarrow>
        Inr (User_init name_arg token_arg refresh_arg next_arg id_arg uuid4 k)))))))))))"

fun load_loop :: "json list \<Rightarrow> (nat \<Rightarrow> string) \<Rightarrow> nat \<Rightarrow> User list \<Rightarrow> error + User list" where
  "load_loop [] uuid4 k users = Inr users"
| "load_loop (el # els) uuid4 k users =
     (case load_user el uuid4 k of
        Inl e \<Rightarrow> Inl e
      | Inr (u, k') \<Rightarrow> load_loop els uuid4 k' (users @ [u]))"

definition Pool_init :: "(string \<rightharpoonup> json) \<Rightarrow> string \<Rightarrow> (nat \<Rightarrow> string) \<Rightarrow> error + User list" where
  "Pool_init files storage uuid4 =
     (case files storage of
        None \<Rightarrow> Inr []
      | Some data \<Rightarrow>
          (case py_iter data of
             Inl e \<Rightarrow> Inl e
           | Inr els \<Rightarrow> load_loop els uuid4 0 []))"

definition serialize :: "User list \<Rightarrow> string \<Rightarrow> (string \<rightharpoonup> json) \<Rightarrow> (string \<rightharpoonup> json)" where
  "serialize users storage files = files(storage \<mapsto> JArr (map as_dict users))"

text \<open>The properties \<open>any\<close> and \<open>ready\<close>, and \<open>best\<close> with its loop variables \<open>cd\<close> and \<open>usr\<close>.\<close>

definition Pool_any :: "User list \<Rightarrow> rat \<Rightarrow> bool" where
  "Pool_any users now = list_ex (\<lambda>u. cooldown u now \<le> 0) users"

definition Pool_ready :: "User list \<Rightarrow> rat \<Rightarrow> int" where
  "Pool_ready users now = sum_list (map (\<lambda>u. 1) (filter (\<lambda>u. cooldown u now \<le> 0) users))"

fun best_loop :: "User list \<Rightarrow> rat \<Rightarrow> rat option \<Rightarrow> User option \<Rightarrow> User option" where
  "best_loop [] now cd usr = usr"
| "best_loop (u # us) now cd usr =
     (if (case cd of None \<Rightarrow> True | Some c \<Rightarrow> cooldown u now < c)
      then best_loop us now (Some (cooldown u now)) (Some u)
      else best_loop us now cd usr)"

definition Pool_best :: "User list \<Rightarrow> rat \<Rightarrow> User option" where
  "Pool_best users now = best_loop users now None None"

text \<open>
  \<open>Pool.put\<close>: the loop over \<open>users\<close>.  The account \<open>User.put\<close> has changed stays in its
  place in the list, also when \<open>User.put\<close> raises; what \<open>User.put\<close> returns is not used.
\<close>

fun Pool_put ::
  "User list \<Rightarrow> color_arg \<Rightarrow> int \<Rightarrow> int \<Rightarrow> rat \<Rightarrow> json \<Rightarrow> (error + bool) \<times> User list" where
  "Pool_put [] color x y now answ = (Inr False, [])"
| "Pool_put (u # us) color x y now answ =
     (if cooldown u now \<le> 0
      then (case put u color x y now answ of
              (Inl e, u') \<Rightarrow> (Inl e, u' # us)
            | (Inr r, u') \<Rightarrow> (Inr True, u' # us))
      else (case Pool_put us color x y now answ of
              (res, us') \<Rightarrow> (res, u # us')))"

section \<open>Notions used to state the properties\<close>

text \<open>
  The timestamp a response carries for \<open>put\<close>: the value the loop over the data envelope,
  respectively over the errors, stops at, \<open>None\<close> when it stops nowhere, an exception when
  reading the response raises one.  These functions read the response as the loops of
  \<open>put\<close> do and leave the account out.
\<close>

fun data_search :: "json list \<Rightarrow> error + json option" where
  "data_search [] = Inr None"
| "data_search (act # acts) =
     (case py_get act ''data'' of
        Inl e \<Rightarrow> Inl e
      | Inr d \<Rightarrow>
     (case py_in ''nextAvailablePixelTimestamp'' d of
        Inl e \<Rightarrow> Inl e
      | Inr False \<Rightarrow> data_search acts
      | Inr True \<Rightarrow>
     (case py_get d ''nextAvailablePixelTimestamp'' of
        Inl e \<Rightarrow> Inl e
      | Inr v \<Rightarrow> Inr (Some v))))"

definition data_timestamp :: "json \<Rightarrow> error + json option" where
  "data_timestamp answ =
     (case py_in ''data'' answ of
        Inl e \<Rightarrow> Inl e
      | Inr False \<Rightarrow> Inr None
      | Inr True \<Rightarrow>
     (case py_get answ ''data'' of
        Inl e \<Rightarrow> Inl e
      | Inr d \<Rightarrow> if \<not> truthy d then Inr None else
     (case py_get d ''act'' of
        Inl e \<Rightarrow> Inl e
      | Inr a \<Rightarrow>
     (case py_get a ''data'' of
        Inl e \<Rightarrow> Inl e
      | Inr acts \<Rightarrow>
     (case py_iter acts of
        Inl e \<Rightarrow> Inl e
      | Inr xs \<Rightarrow> data_search xs)))))"

fun errors_search :: "json list \<Rightarrow> error + json option" where
  "errors_search [] = Inr None"
| "errors_search (err # errs) =
     (case py_in ''extensions'' err of
        Inl e \<Rightarrow> Inl e
      | Inr False \<Rightarrow> errors_search errs
      | Inr True \<Rightarrow>
     (case py_get err ''extensions'' of
        Inl e \<Rightarrow> Inl e
      | Inr ext \<Rightarrow>
     (case py_in ''nextAvailablePixelTs'' ext of
        Inl e \<Rightarrow> Inl e
      | Inr False \<Rightarrow> errors_search errs
      | Inr True \<Rightarrow>
     (case py_get ext ''nextAvailablePixelTs'' of
        Inl e \<Rightarrow> Inl e
      | Inr v \<Rightarrow> Inr (Some v)))))"

definition errors_timestamp :: "json \<Rightarrow> error + json option" where
  "errors_timestamp answ =
     (case py_in ''errors'' answ of
        Inl e \<Rightarrow> Inl e
      | Inr False \<Rightarrow> Inr None
      | Inr True \<Rightarrow>
     (case py_get answ ''errors'' of
        Inl e \<Rightarrow> Inl e
      | Inr errs \<Rightarrow> if \<not> truthy errs then Inr None else
     (case py_iter errs of
        Inl e \<Rightarrow> Inl e
      | Inr xs \<Rightarrow> errors_search xs)))"

text \<open>
  The account a saved account is loaded as: a refresh token that is empty or the text
  "null", and a next-eligible time of 0, come back absent.
\<close>

definition loaded_form :: "User \<Rightarrow> User" where
  "loaded_form u =
     u\<lparr>refresh := (case refresh u of
                     None \<Rightarrow> None
                   | Some s \<Rightarrow> if s = [] \<or> s = ''null'' then None else Some s),
       next' := (case next' u of
                   None \<Rightarrow> None
                 | Some t \<Rightarrow> if t = 0 then None else Some t)\<rparr>"

text \<open>
  Responses of the three shapes the placement endpoint answers with, and an account,
  for the examples: a success envelope and an errors envelope carrying a timestamp in
  milliseconds, and the explicit refusal.
\<close>

abbreviation success_response :: "rat \<Rightarrow> json" where
  "success_response ms \<equiv>
     JObj [(''data'', JObj [(''act'', JObj [(''data'',
       JArr [JObj [(''id'', JStr ''1''),
                   (''data'', JObj [(''nextAvailablePixelTimestamp'', JNum ms)])]])])])]"

abbreviation errors_response :: "rat \<Rightarrow> json" where
  "errors_response ms \<equiv>
     JObj [(''data'', JNull),
           (''errors'', JArr [JObj [(''message'', JStr ''Ratelimited''),
                                    (''extensions'', JObj [(''nextAvailablePixelTs'', JNum ms)])]])]"

abbreviation unauthorized_response :: json where
  "unauthorized_response \<equiv>
     JObj [(''success'', JBool False), (''error'', JObj [(''reason'', JStr ''UNAUTHORIZED'')])]"

abbreviation account :: "string \<Rightarrow> string option \<Rightarrow> rat option \<Rightarrow> User" where
  "account n r t \<equiv> \<lparr>id' = n, name = n, token = ''secret'', refresh = r, next' = t\<rparr>"

text \<open>For the examples: a file system with no file, and a supply of identifiers.\<close>

definition no_files :: "string \<rightharpoonup> json" where
  "no_files = Map.empty"

definition example_uuid4 :: "nat \<Rightarrow> string" where
  "example_uuid4 k = replicate (Suc k) CHR ''u''"

section \<open>Properties of the colour functions\<close>

lemma FLT_mask: "FLT = mask 8"
  by (simp add: FLT_def mask_eq_exp_minus_1)

lemma unpack_pack_take_bit:
  "unpack (pack r g b) = (take_bit 8 r, take_bit 8 g, take_bit 8 b)"
  unfolding unpack_def pack_def Let_def FLT_mask
  apply (simp add: take_bit_eq_mask [symmetric])
  apply (intro conjI bit_eqI)
    apply (auto simp add: bit_simps)
  done

lemma pack_layout:
  "pack r g b = r mod 256 + 256 * (g mod 256) + 65536 * (b mod 256)"
proof -
  have low: "take_bit 8 r OR push_bit 8 (take_bit 8 g)
           = take_bit 8 r + push_bit 8 (take_bit 8 g)"
    by (rule disjunctive_add_eq_or [symmetric], rule bit_eqI) (auto simp add: bit_simps)
  have high: "(take_bit 8 r + push_bit 8 (take_bit 8 g)) OR push_bit 16 (take_bit 8 b)
            = (take_bit 8 r + push_bit 8 (take_bit 8 g)) + push_bit 16 (take_bit 8 b)"
    unfolding low [symmetric]
    by (rule disjunctive_add_eq_or [symmetric], rule bit_eqI) (auto simp add: bit_simps)
  have "pack r g b
        = take_bit 8 r OR push_bit 8 (take_bit 8 g) OR push_bit 16 (take_bit 8 b)"
    unfolding pack_def FLT_mask take_bit_eq_mask by (simp only: and.commute or.assoc)
  also have "\<dots> = take_bit 8 r + push_bit 8 (take_bit 8 g) + push_bit 16 (take_bit 8 b)"
    by (simp only: low high or.assoc [symmetric])
  also have "\<dots> = r mod 256 + 256 * (g mod 256) + 65536 * (b mod 256)"
    by (simp add: take_bit_eq_mod push_bit_eq_mult)
  finally show ?thesis .
qed

text \<open>
  Claim C2.  For channels in 0..255, unpacking a packed triple gives the triple back.
  \<open>pack\<close> puts red in the low byte, green in the middle byte and blue in the high byte,
  each channel reduced modulo 256: a channel out of range is truncated, not rejected,
  so that \<open>pack (256 + 5) 0 0 = pack 5 0 0\<close>.
\<close>

theorem pack_unpack_roundtrip:
  "(0 \<le> r \<and> r \<le> 255 \<and> 0 \<le> g \<and> g \<le> 255 \<and> 0 \<le> b \<and> b \<le> 255
      \<longrightarrow> unpack (pack r g b) = (r, g, b))
   \<and> pack r g b = r mod 256 + 256 * (g mod 256) + 65536 * (b mod 256)
   \<and> pack r g b = pack (r mod 256) (g mod 256) (b mod 256)
   \<and> pack (256 + 5) 0 0 = pack 5 0 0"
proof (intro conjI impI)
  assume range: "0 \<le> r \<and> r \<le> 255 \<and> 0 \<le> g \<and> g \<le> 255 \<and> 0 \<le> b \<and> b \<le> 255"
  then have "r mod 256 = r" "g mod 256 = g" "b mod 256 = b"
    by simp_all
  then show "unpack (pack r g b) = (r, g, b)"
    by (simp add: unpack_pack_take_bit take_bit_eq_mod)
next
  show "pack r g b = r mod 256 + 256 * (g mod 256) + 65536 * (b mod 256)"
    by (rule pack_layout)
next
  show "pack r g b = pack (r mod 256) (g mod 256) (b mod 256)"
    by (simp add: pack_layout)
next
  show "pack (256 + 5) 0 0 = pack 5 0 0"
    by (simp add: pack_layout)
qed

theorem pack_unpack_roundtrip_witness:
  "(0::int) \<le> 255 \<and> (255::int) \<le> 255 \<and> (0::int) \<le> 69 \<and> (69::int) \<le> 255
     \<and> (0::int) \<le> 0 \<and> (0::int) \<le> 255
     \<and> unpack (pack 255 69 0) = (255, 69, 0)"
proof -
  have range: "(0::int) \<le> 255 \<and> (255::int) \<le> 255 \<and> (0::int) \<le> 69 \<and> (69::int) \<le> 255
     \<and> (0::int) \<le> 0 \<and> (0::int) \<le> 255"
    by simp
  have "(0::int) \<le> 255 \<and> (255::int) \<le> 255 \<and> (0::int) \<le> 69 \<and> (69::int) \<le> 255
     \<and> (0::int) \<le> 0 \<and> (0::int) \<le> 255 \<longrightarrow> unpack (pack 255 69 0) = (255, 69, 0)"
    using pack_unpack_roundtrip [of 255 69 0] by (rule conjunct1)
  with range show ?thesis by blast
qed

text \<open>
  Claim C1.  \<open>closest\<close> is to return the nearest palette entry and to skip a member that
  has no RGB triple.  In the code the first member visited, \<open>DARK_RED\<close>, is mapped to the
  empty tuple, whose unpacking into three variables raises \<open>ValueError\<close>: \<open>closest\<close>
  raises it at every input and returns no entry, in particular at (0,0,0), (255,255,255)
  and (1,1,1).
\<close>

theorem closest_raises_ValueError:
  "closest r g b = Inl ValueError"
  by (simp add: closest_def members_def to_tuple_def color_map_def)

section \<open>Properties of the accounts\<close>

subsection \<open>What \<open>put\<close> does with a response\<close>

lemma data_loop_search:
  "data_loop acts self now =
     (case data_search acts of
        Inl e \<Rightarrow> Some (Inl e, self)
      | Inr None \<Rightarrow> None
      | Inr (Some v) \<Rightarrow> Some (store_next self now v True))"
  by (induction acts) (simp_all split: sum.splits bool.splits)

lemma errors_loop_search:
  "errors_loop errs self now =
     (case errors_search errs of
        Inl e \<Rightarrow> Some (Inl e, self)
      | Inr None \<Rightarrow> None
      | Inr (Some v) \<Rightarrow> Some (store_next self now v False))"
  by (induction errs) (simp_all split: sum.splits bool.splits)

lemma data_branch_timestamp:
  "data_branch answ self now =
     (case data_timestamp answ of
        Inl e \<Rightarrow> Some (Inl e, self)
      | Inr None \<Rightarrow> None
      | Inr (Some v) \<Rightarrow> Some (store_next self now v True))"
  unfolding data_branch_def data_timestamp_def
  by (auto simp add: data_loop_search split: sum.splits bool.splits option.splits)

lemma errors_branch_timestamp:
  "errors_branch answ self now =
     (case errors_timestamp answ of
        Inl e \<Rightarrow> Some (Inl e, self)
      | Inr None \<Rightarrow> None
      | Inr (Some v) \<Rightarrow> Some (store_next self now v False))"
  unfolding errors_branch_def errors_timestamp_def
  by (auto simp add: errors_loop_search split: sum.splits bool.splits option.splits)

lemma store_next_not_None: "store_next self now v ret \<noteq> (Inr None, s)"
  by (simp add: store_next_def Let_def split: sum.splits)

lemma put_valid_color:
  assumes "RedditColor_call (IntColor c) = Inr m"
  shows "put self (IntColor c) x y now answ =
     (case unauthorized_marker answ of
        Inl e \<Rightarrow> (Inl e, self)
      | Inr True \<Rightarrow> (Inl (UnauthorizedError (StrOf answ) True), self)
      | Inr False \<Rightarrow>
     (case data_timestamp answ of
        Inl e \<Rightarrow> (Inl e, self)
      | Inr (Some v) \<Rightarrow> store_next self now v True
      | Inr None \<Rightarrow>
     (case errors_timestamp answ of
        Inl e \<Rightarrow> (Inl e, self)
      | Inr (Some v) \<Rightarrow> store_next self now v False
      | Inr None \<Rightarrow> (Inr None, self))))"
  using assms unfolding put_def get_payload_def
  by (simp add: data_branch_timestamp errors_branch_timestamp
           split: sum.splits bool.splits option.splits)

lemma RedditColor_call_2: "RedditColor_call (IntColor 2) = Inr RED"
  by (simp add: RedditColor_call_def members_def)

text \<open>
  Claim C7.  The cooldown of an account at the time \<open>now\<close> is its next-eligible time
  minus \<open>now\<close>, an absent next-eligible time counting as 0; it is negative exactly when
  the next-eligible time is already past.
\<close>

theorem cooldown_is_next_minus_now:
  "cooldown self now = (case next' self of None \<Rightarrow> 0 | Some t \<Rightarrow> t) - now
   \<and> cooldown (self\<lparr>next' := None\<rparr>) now = 0 - now
   \<and> cooldown (self\<lparr>next' := Some t\<rparr>) now = t - now
   \<and> (cooldown (self\<lparr>next' := Some t\<rparr>) now < 0 \<longleftrightarrow> t < now)"
  by (auto simp add: cooldown_def split: option.splits)

text \<open>
  Claim C10.  Called with an integer that is a palette value, \<open>put\<close> returns \<open>None\<close>,
  neither \<open>True\<close> nor \<open>False\<close>, exactly when the response carries no UNAUTHORIZED marker,
  no timestamp in the data envelope and none in the errors; the account is then
  unchanged.  Such responses exist: the empty document is one.
\<close>

theorem put_returns_None:
  assumes "RedditColor_call (IntColor c) = Inr m"
  shows "put self (IntColor c) x y now answ = (Inr None, self') \<longleftrightarrow>
           unauthorized_marker answ = Inr False \<and> data_timestamp answ = Inr None
           \<and> errors_timestamp answ = Inr None \<and> self' = self"
  unfolding put_valid_color [OF assms]
  by (auto simp add: store_next_not_None split: sum.splits bool.splits option.splits)

theorem put_returns_None_witness:
  "put (account ''a'' None (Some 7)) (IntColor 2) 3 4 100 (JObj [])
     = (Inr None, account ''a'' None (Some 7))
   \<and> put (account ''a'' None (Some 7)) (IntColor 2) 3 4 100
        (JObj [(''data'', JObj [(''act'', JObj [(''data'',
                 JArr [JObj [(''data'', JObj [(''timestamp'', JNum 5)])]])])]),
               (''errors'', JArr [JObj [(''message'', JStr ''no'')]])])
     = (Inr None, account ''a'' None (Some 7))"
proof -
  have empty: "unauthorized_marker (JObj []) = Inr False \<and> data_timestamp (JObj []) = Inr None
      \<and> errors_timestamp (JObj []) = Inr None"
    by (simp add: unauthorized_marker_def data_timestamp_def errors_timestamp_def)
  have other: "unauthorized_marker
        (JObj [(''data'', JObj [(''act'', JObj [(''data'',
                 JArr [JObj [(''data'', JObj [(''timestamp'', JNum 5)])]])])]),
               (''errors'', JArr [JObj [(''message'', JStr ''no'')]])]) = Inr False
      \<and> data_timestamp
        (JObj [(''data'', JObj [(''act'', JObj [(''data'',
                 JArr [JObj [(''data'', JObj [(''timestamp'', JNum 5)])]])])]),
               (''errors'', JArr [JObj [(''message'', JStr ''no'')]])]) = Inr None
      \<and> errors_timestamp
        (JObj [(''data'', JObj [(''act'', JObj [(''data'',
                 JArr [JObj [(''data'', JObj [(''timestamp'', JNum 5)])]])])]),
               (''errors'', JArr [JObj [(''message'', JStr ''no'')]])]) = Inr None"
    by (simp add: unauthorized_marker_def data_timestamp_def errors_timestamp_def)
  show ?thesis
    using empty other
      put_returns_None [OF RedditColor_call_2, of "account ''a'' None (Some 7)" 3 4 100
        "JObj []" "account ''a'' None (Some 7)"]
      put_returns_None [OF RedditColor_call_2, of "account ''a'' None (Some 7)" 3 4 100
        "JObj [(''data'', JObj [(''act'', JObj [(''data'',
                 JArr [JObj [(''data'', JObj [(''timestamp'', JNum 5)])]])])]),
               (''errors'', JArr [JObj [(''message'', JStr ''no'')]])]"
        "account ''a'' None (Some 7)"]
    by blast
qed

text \<open>
  Claim C3, as amended.  Let \<open>put\<close> be called at a time \<open>now\<close>, not before the epoch, with
  an integer that is a palette value, and let the response carry no UNAUTHORIZED marker
  and, as the first timestamp \<open>put\<close> finds (in the data envelope, or in the errors when
  the data envelope has none), a number of milliseconds more than 31 days after \<open>now\<close>.
  Then \<open>put\<close> raises the \<open>UnauthorizedError\<close> that is not refreshable, and it has stored
  that time as the next-eligible time of the account.  Nothing else marks the account:
  its cooldown is at most 0 at any later time from the stored one on.
\<close>

theorem put_cooldown_too_long:
  assumes "RedditColor_call (IntColor c) = Inr m"
    and "unauthorized_marker answ = Inr False"
    and "data_timestamp answ = Inr (Some (JNum ms))
         \<or> data_timestamp answ = Inr None \<and> errors_timestamp answ = Inr (Some (JNum ms))"
    and "0 \<le> now"
    and "cooldown_limit < ms / 1000 - now"
  shows "put self (IntColor c) x y now answ =
           (Inl (UnauthorizedError (Literal ''Rate limited: cooldown too long'') False),
            self\<lparr>next' := Some (ms / 1000)\<rparr>)
         \<and> (cooldown (self\<lparr>next' := Some (ms / 1000)\<rparr>) later \<le> 0 \<longleftrightarrow> ms / 1000 \<le> later)"
proof -
  from assms(4,5) have pos: "ms / 1000 \<noteq> 0"
    by (auto simp add: cooldown_limit_def)
  have stored: "store_next self now (JNum ms) ret =
      (Inl (UnauthorizedError (Literal ''Rate limited: cooldown too long'') False),
       self\<lparr>next' := Some (ms / 1000)\<rparr>)" for ret
    using pos assms(5) by (simp add: store_next_def Let_def)
  have "put self (IntColor c) x y now answ =
      (Inl (UnauthorizedError (Literal ''Rate limited: cooldown too long'') False),
       self\<lparr>next' := Some (ms / 1000)\<rparr>)"
    using assms(2,3) unfolding put_valid_color [OF assms(1)]
    by (auto simp add: stored)
  moreover have "cooldown (self\<lparr>next' := Some (ms / 1000)\<rparr>) later \<le> 0 \<longleftrightarrow> ms / 1000 \<le> later"
    by (simp add: cooldown_def)
  ultimately show ?thesis by blast
qed

theorem put_cooldown_too_long_witness:
  "put (account ''a'' None None) (IntColor 2) 3 4 100 (errors_response 2678501000)
     = (Inl (UnauthorizedError (Literal ''Rate limited: cooldown too long'') False),
        account ''a'' None (Some 2678501))
   \<and> cooldown (account ''a'' None (Some 2678501)) 2678501 \<le> 0"
proof -
  have marker: "unauthorized_marker (errors_response 2678501000) = Inr False"
    by (simp add: unauthorized_marker_def)
  have stamp: "data_timestamp (errors_response 2678501000) = Inr (Some (JNum 2678501000))
      \<or> data_timestamp (errors_response 2678501000) = Inr None
        \<and> errors_timestamp (errors_response 2678501000) = Inr (Some (JNum 2678501000))"
    by (simp add: data_timestamp_def errors_timestamp_def)
  have time: "(0::rat) \<le> 100"
    by simp
  have far: "cooldown_limit < 2678501000 / 1000 - 100"
    by (simp add: cooldown_limit_def)
  show ?thesis
    using put_cooldown_too_long [OF RedditColor_call_2 marker stamp time far,
        of "account ''a'' None None" 3 4 2678501]
    by simp
qed

theorem put_cooldown_too_long_counterexample:
  "put (account ''a'' None None) (IntColor 2) 3 4 100 (success_response 2678501000)
     = (Inl (UnauthorizedError (Literal ''Rate limited: cooldown too long'') False),
        account ''a'' None (Some 2678501))
   \<and> cooldown (account ''a'' None (Some 2678501)) 2678501 \<le> 0
   \<and> Pool_any [account ''a'' None (Some 2678501)] 2678501
   \<and> Pool_put [account ''a'' None (Some 2678501)] (IntColor 2) 3 4 2678501
        (success_response 2678801000)
     = (Inr True, [account ''a'' None (Some 2678801)])"
  by (simp add: put_def RedditColor_call_def members_def get_payload_def
        unauthorized_marker_def data_branch_def store_next_def cooldown_limit_def
        cooldown_def Pool_any_def)

text \<open>
  Claim C4, as amended.  \<open>refresh_token\<close> on an account whose refresh token is absent,
  empty or the text "null" raises \<open>UnauthorizedError\<close> with the message
  "No refresh token", whatever the services would answer, and leaves the access token
  and every other field of the account as they were.
\<close>

theorem refresh_token_without_refresh:
  assumes "refresh self = None \<or> refresh self = Some [] \<or> refresh self = Some ''null''"
  shows "\<exists>refreshable. refresh_token self data me =
           (Inl (UnauthorizedError (Literal ''No refresh token'') refreshable), self)"
  using assms by (auto simp add: refresh_token_def)

theorem refresh_token_without_refresh_witness:
  "\<exists>refreshable. refresh_token (account ''a'' (Some ''null'') None)
       (JObj [(''access_token'', JStr ''new'')]) JNull =
     (Inl (UnauthorizedError (Literal ''No refresh token'') refreshable),
      account ''a'' (Some ''null'') None)"
proof -
  have absent: "refresh (account ''a'' (Some ''null'') None) = None
      \<or> refresh (account ''a'' (Some ''null'') None) = Some []
      \<or> refresh (account ''a'' (Some ''null'') None) = Some ''null''"
    by simp
  show ?thesis
    by (rule refresh_token_without_refresh [OF absent])
qed

theorem refresh_token_without_refresh_counterexample:
  "refresh_token (account ''a'' None None) (JObj [(''access_token'', JStr ''new'')]) JNull
     = (Inl (UnauthorizedError (Literal ''No refresh token'') True), account ''a'' None None)
   \<and> fst (refresh_token (account ''a'' None None)
        (JObj [(''access_token'', JStr ''new'')]) JNull)
     \<noteq> Inl (UnauthorizedError (Literal ''No refresh token'') False)"
  by (simp add: refresh_token_def)

section \<open>Properties of the pool\<close>

lemma Pool_any_iff: "Pool_any users now \<longleftrightarrow> (\<exists>u\<in>set users. cooldown u now \<le> 0)"
  by (simp add: Pool_any_def list_ex_iff)

lemma sum_list_ones: "sum_list (map (\<lambda>u. 1) xs) = int (length xs)"
  by (induction xs) simp_all

lemma Pool_ready_card:
  "Pool_ready users now = int (card {i. i < length users \<and> cooldown (users ! i) now \<le> 0})"
  by (simp add: Pool_ready_def sum_list_ones length_filter_conv_card)

lemma best_loop_min:
  assumes "case usr of None \<Rightarrow> cd = None | Some u \<Rightarrow> cd = Some (cooldown u now)"
  shows "case best_loop us now cd usr of
           None \<Rightarrow> us = [] \<and> usr = None
         | Some b \<Rightarrow> (b \<in> set us \<or> usr = Some b)
                     \<and> (\<forall>v\<in>set us. cooldown b now \<le> cooldown v now)
                     \<and> (\<forall>u. usr = Some u \<longrightarrow> cooldown b now \<le> cooldown u now)"
  using assms
proof (induction us arbitrary: cd usr)
  case Nil
  then show ?case by (simp split: option.splits)
next
  case (Cons u us)
  show ?case
  proof (cases "case cd of None \<Rightarrow> True | Some c \<Rightarrow> cooldown u now < c")
    case True
    have "case best_loop us now (Some (cooldown u now)) (Some u) of
           None \<Rightarrow> us = [] \<and> Some u = None
         | Some b \<Rightarrow> (b \<in> set us \<or> Some u = Some b)
                     \<and> (\<forall>v\<in>set us. cooldown b now \<le> cooldown v now)
                     \<and> (\<forall>w. Some u = Some w \<longrightarrow> cooldown b now \<le> cooldown w now)"
      by (rule Cons.IH) simp
    with True Cons.prems show ?thesis
      by (auto split: option.splits)
  next
    case False
    have "case best_loop us now cd usr of
           None \<Rightarrow> us = [] \<and> usr = None
         | Some b \<Rightarrow> (b \<in> set us \<or> usr = Some b)
                     \<and> (\<forall>v\<in>set us. cooldown b now \<le> cooldown v now)
                     \<and> (\<forall>w. usr = Some w \<longrightarrow> cooldown b now \<le> cooldown w now)"
      by (rule Cons.IH) (rule Cons.prems)
    with False Cons.prems show ?thesis
      by (auto split: option.splits)
  qed
qed

lemma Pool_best_None: "Pool_best users now = None \<longleftrightarrow> users = []"
  using best_loop_min [where usr = None and cd = None and now = now and us = users]
  by (cases users) (auto simp add: Pool_best_def split: option.splits)

lemma Pool_best_Some:
  "Pool_best users now = Some b \<Longrightarrow>
     b \<in> set users \<and> (\<forall>v\<in>set users. cooldown b now \<le> cooldown v now)"
  using best_loop_min [where usr = None and cd = None and now = now and us = users]
  by (auto simp add: Pool_best_def)

lemma Pool_put_none_ready:
  "\<forall>u\<in>set users. 0 < cooldown u now \<Longrightarrow>
     Pool_put users color x y now answ = (Inr False, users)"
  by (induction users) auto

lemma Pool_put_first_ready:
  "i < length users \<Longrightarrow> cooldown (users ! i) now \<le> 0 \<Longrightarrow>
   \<forall>j<i. 0 < cooldown (users ! j) now \<Longrightarrow>
     Pool_put users color x y now answ =
       ((case fst (put (users ! i) color x y now answ) of
           Inl e \<Rightarrow> Inl e
         | Inr r \<Rightarrow> Inr True),
        users[i := snd (put (users ! i) color x y now answ)])"
proof (induction users arbitrary: i)
  case Nil
  then show ?case by simp
next
  case (Cons u us)
  show ?case
  proof (cases i)
    case 0
    with Cons.prems show ?thesis
      by (auto split: prod.splits sum.splits)
  next
    case (Suc k)
    with Cons.prems have head: "0 < cooldown u now"
      by auto
    from Suc Cons.prems have "k < length us" "cooldown (us ! k) now \<le> 0"
      "\<forall>j<k. 0 < cooldown (us ! j) now"
      by auto
    then have "Pool_put us color x y now answ =
       ((case fst (put (us ! k) color x y now answ) of
           Inl e \<Rightarrow> Inl e
         | Inr r \<Rightarrow> Inr True),
        us[k := snd (put (us ! k) color x y now answ)])"
      by (rule Cons.IH)
    with head Suc show ?thesis
      by simp
  qed
qed

lemma first_ready_index:
  "\<exists>u\<in>set users. cooldown u now \<le> 0 \<Longrightarrow>
     \<exists>i<length users. cooldown (users ! i) now \<le> 0 \<and> (\<forall>j<i. 0 < cooldown (users ! j) now)"
proof (induction users)
  case Nil
  then show ?case by simp
next
  case (Cons u us)
  show ?case
  proof (cases "cooldown u now \<le> 0")
    case True
    then have "0 < length (u # us) \<and> cooldown ((u # us) ! 0) now \<le> 0
        \<and> (\<forall>j<0. 0 < cooldown ((u # us) ! j) now)"
      by simp
    then show ?thesis by blast
  next
    case False
    with Cons.prems have "\<exists>u\<in>set us. cooldown u now \<le> 0"
      by auto
    then obtain i where i: "i < length us" "cooldown (us ! i) now \<le> 0"
      "\<forall>j<i. 0 < cooldown (us ! j) now"
      using Cons.IH by blast
    have "\<forall>j<Suc i. 0 < cooldown ((u # us) ! j) now"
    proof (intro allI impI)
      fix j assume "j < Suc i"
      with i(3) False show "0 < cooldown ((u # us) ! j) now"
        by (cases j) auto
    qed
    with i(1,2) have "Suc i < length (u # us) \<and> cooldown ((u # us) ! Suc i) now \<le> 0
        \<and> (\<forall>j<Suc i. 0 < cooldown ((u # us) ! j) now)"
      by simp
    then show ?thesis by blast
  qed
qed

text \<open>
  Claim C6.  \<open>any\<close> holds exactly when some account has a cooldown of at most 0; \<open>ready\<close>
  is the number of such accounts; \<open>best\<close> is \<open>None\<close> exactly on the empty pool and
  otherwise an account of the pool whose cooldown, negative or not, is the smallest.
  For three accounts with cooldowns -5, 10 and 0, \<open>any\<close> holds, \<open>ready\<close> is 2 and \<open>best\<close> is
  the account with -5.
\<close>

theorem Pool_any_ready_best:
  "(Pool_any users now \<longleftrightarrow> (\<exists>u\<in>set users. cooldown u now \<le> 0))
   \<and> Pool_ready users now = int (card {i. i < length users \<and> cooldown (users ! i) now \<le> 0})
   \<and> (Pool_best users now = None \<longleftrightarrow> users = [])
   \<and> (\<forall>u. Pool_best users now = Some u \<longrightarrow>
          u \<in> set users \<and> (\<forall>v\<in>set users. cooldown u now \<le> cooldown v now))
   \<and> (cooldown a now = - 5 \<and> cooldown b now = 10 \<and> cooldown c now = 0 \<longrightarrow>
          Pool_any [a, b, c] now \<and> Pool_ready [a, b, c] now = 2
          \<and> Pool_best [a, b, c] now = Some a)"
proof (intro conjI allI impI)
  show "Pool_any users now \<longleftrightarrow> (\<exists>u\<in>set users. cooldown u now \<le> 0)"
    by (rule Pool_any_iff)
next
  show "Pool_ready users now
        = int (card {i. i < length users \<and> cooldown (users ! i) now \<le> 0})"
    by (rule Pool_ready_card)
next
  show "Pool_best users now = None \<longleftrightarrow> users = []"
    by (rule Pool_best_None)
next
  fix u assume "Pool_best users now = Some u"
  then show "u \<in> set users"
    by (simp add: Pool_best_Some)
next
  fix u assume "Pool_best users now = Some u"
  then show "\<forall>v\<in>set users. cooldown u now \<le> cooldown v now"
    by (simp add: Pool_best_Some)
next
  assume cds: "cooldown a now = - 5 \<and> cooldown b now = 10 \<and> cooldown c now = 0"
  then show "Pool_any [a, b, c] now"
    by (simp add: Pool_any_def)
next
  assume cds: "cooldown a now = - 5 \<and> cooldown b now = 10 \<and> cooldown c now = 0"
  then show "Pool_ready [a, b, c] now = 2"
    by (simp add: Pool_ready_def)
next
  assume cds: "cooldown a now = - 5 \<and> cooldown b now = 10 \<and> cooldown c now = 0"
  then show "Pool_best [a, b, c] now = Some a"
    by (simp add: Pool_best_def)
qed

theorem Pool_any_ready_best_witness:
  "Pool_any [account ''a'' None (Some 95), account ''b'' None (Some 110),
             account ''c'' None (Some 100)] 100
   \<and> Pool_ready [account ''a'' None (Some 95), account ''b'' None (Some 110),
                 account ''c'' None (Some 100)] 100 = 2
   \<and> Pool_best [account ''a'' None (Some 95), account ''b'' None (Some 110),
                account ''c'' None (Some 100)] 100 = Some (account ''a'' None (Some 95))"
proof -
  have cds: "cooldown (account ''a'' None (Some 95)) 100 = - 5
      \<and> cooldown (account ''b'' None (Some 110)) 100 = 10
      \<and> cooldown (account ''c'' None (Some 100)) 100 = 0"
    by (simp add: cooldown_def)
  show ?thesis
    using cds Pool_any_ready_best [of "[account ''a'' None (Some 95),
        account ''b'' None (Some 110), account ''c'' None (Some 100)]" 100
        "account ''a'' None (Some 95)"
        "account ''b'' None (Some 110)" "account ''c'' None (Some 100)"]
    by blast
qed

text \<open>
  Claim C5.  \<open>Pool.put\<close> returns \<open>False\<close> and changes nothing when no account has a
  cooldown of at most 0.  Otherwise it hands the placement to the first such account in
  the order of the list, whatever the cooldowns of the later accounts: that account
  alone is changed, as \<open>User.put\<close> changes it, and the pool raises what \<open>User.put\<close> raises
  and returns \<open>True\<close> when it returns.
\<close>

theorem Pool_put_first_eligible:
  "((\<forall>u\<in>set users. 0 < cooldown u now) \<longrightarrow>
       Pool_put users color x y now answ = (Inr False, users))
   \<and> (i < length users \<and> cooldown (users ! i) now \<le> 0
        \<and> (\<forall>j<i. 0 < cooldown (users ! j) now) \<longrightarrow>
       Pool_put users color x y now answ =
         ((case fst (put (users ! i) color x y now answ) of
             Inl e \<Rightarrow> Inl e
           | Inr r \<Rightarrow> Inr True),
          users[i := snd (put (users ! i) color x y now answ)]))"
  using Pool_put_none_ready [of users now color x y answ]
    Pool_put_first_ready [of i users now color x y answ]
  by blast

theorem Pool_put_first_eligible_witness:
  "Pool_put [account ''b'' None (Some 110), account ''c'' None (Some 100),
             account ''a'' None (Some 95)] (IntColor 2) 3 4 100 (success_response 400000)
     = (Inr True, [account ''b'' None (Some 110), account ''c'' None (Some 400),
                   account ''a'' None (Some 95)])
   \<and> Pool_best [account ''b'' None (Some 110), account ''c'' None (Some 100),
                account ''a'' None (Some 95)] 100 = Some (account ''a'' None (Some 95))
   \<and> Pool_put [account ''b'' None (Some 110)] (IntColor 2) 3 4 100 (success_response 400000)
     = (Inr False, [account ''b'' None (Some 110)])"
proof -
  have placed: "put (account ''c'' None (Some 100)) (IntColor 2) 3 4 100 (success_response 400000)
      = (Inr (Some True), account ''c'' None (Some 400))"
    by (simp add: put_def RedditColor_call_def members_def get_payload_def
          unauthorized_marker_def data_branch_def store_next_def cooldown_limit_def)
  have first: "1 < length [account ''b'' None (Some 110), account ''c'' None (Some 100),
                 account ''a'' None (Some 95)]
      \<and> cooldown ([account ''b'' None (Some 110), account ''c'' None (Some 100),
                 account ''a'' None (Some 95)] ! 1) 100 \<le> 0
      \<and> (\<forall>j<1. 0 < cooldown ([account ''b'' None (Some 110), account ''c'' None (Some 100),
                 account ''a'' None (Some 95)] ! j) 100)"
    by (simp add: cooldown_def)
  have none: "\<forall>u\<in>set [account ''b'' None (Some 110)]. 0 < cooldown u 100"
    by (simp add: cooldown_def)
  have best: "Pool_best [account ''b'' None (Some 110), account ''c'' None (Some 100),
                account ''a'' None (Some 95)] 100 = Some (account ''a'' None (Some 95))"
    by (simp add: Pool_best_def cooldown_def)
  show ?thesis
    using first none best
      Pool_put_first_eligible [of "[account ''b'' None (Some 110)]" 100 "IntColor 2" 3 4
        "success_response 400000" 0]
      Pool_put_first_eligible [of "[account ''b'' None (Some 110),
        account ''c'' None (Some 100), account ''a'' None (Some 95)]" 100 "IntColor 2" 3 4
        "success_response 400000" 1]
    by (simp add: placed)
qed

text \<open>
  Claim C9.  When some account has a cooldown of at most 0, \<open>Pool.put\<close> hands the
  placement to the first one, and whatever \<open>User.put\<close> returns there, \<open>True\<close>, \<open>False\<close> or
  \<open>None\<close>, the pool returns \<open>True\<close>: the value is not passed on.  (An exception of \<open>User.put\<close>
  is passed on.)
\<close>

theorem Pool_put_discards_result:
  assumes "\<exists>u\<in>set users. cooldown u now \<le> 0"
  shows "\<exists>i<length users. cooldown (users ! i) now \<le> 0
           \<and> (\<forall>j<i. 0 < cooldown (users ! j) now)
           \<and> (\<forall>r. fst (put (users ! i) color x y now answ) = Inr r \<longrightarrow>
                 Pool_put users color x y now answ
                   = (Inr True, users[i := snd (put (users ! i) color x y now answ)]))
           \<and> (\<forall>e. fst (put (users ! i) color x y now answ) = Inl e \<longrightarrow>
                 Pool_put users color x y now answ
                   = (Inl e, users[i := snd (put (users ! i) color x y now answ)]))"
proof -
  from assms obtain i where i: "i < length users" "cooldown (users ! i) now \<le> 0"
    "\<forall>j<i. 0 < cooldown (users ! j) now"
    using first_ready_index by blast
  then have "Pool_put users color x y now answ =
       ((case fst (put (users ! i) color x y now answ) of
           Inl e \<Rightarrow> Inl e
         | Inr r \<Rightarrow> Inr True),
        users[i := snd (put (users ! i) color x y now answ)])"
    by (rule Pool_put_first_ready)
  then have "(\<forall>r. fst (put (users ! i) color x y now answ) = Inr r \<longrightarrow>
                 Pool_put users color x y now answ
                   = (Inr True, users[i := snd (put (users ! i) color x y now answ)]))
           \<and> (\<forall>e. fst (put (users ! i) color x y now answ) = Inl e \<longrightarrow>
                 Pool_put users color x y now answ
                   = (Inl e, users[i := snd (put (users ! i) color x y now answ)]))"
    by simp
  with i show ?thesis by blast
qed

theorem Pool_put_discards_result_witness:
  "put (account ''a'' None None) (IntColor 2) 3 4 100 (errors_response 400000)
     = (Inr (Some False), account ''a'' None (Some 400))
   \<and> Pool_put [account ''a'' None None] (IntColor 2) 3 4 100 (errors_response 400000)
     = (Inr True, [account ''a'' None (Some 400)])"
proof -
  have ready: "\<exists>u\<in>set [account ''a'' None None]. cooldown u 100 \<le> 0"
    by (simp add: cooldown_def)
  have placed: "put (account ''a'' None None) (IntColor 2) 3 4 100 (errors_response 400000)
      = (Inr (Some False), account ''a'' None (Some 400))"
    by (simp add: put_def RedditColor_call_def members_def get_payload_def
          unauthorized_marker_def data_branch_def errors_branch_def store_next_def
          cooldown_limit_def)
  show ?thesis
    using Pool_put_discards_result [OF ready, of "IntColor 2" 3 4 "errors_response 400000"]
    by (auto simp add: placed)
qed

subsection \<open>Saving and loading\<close>

lemma load_user_as_dict:
  "id' u \<noteq> [] \<Longrightarrow> load_user (as_dict u) uuid4 k = Inr (loaded_form u, k)"
  by (cases u)
    (auto simp add: load_user_def as_dict_def field_unless_null_def field_if_present_def
       User_init_def loaded_form_def split: option.splits)

lemma load_loop_as_dict:
  "\<forall>u\<in>set us. id' u \<noteq> [] \<Longrightarrow>
     load_loop (map as_dict us) uuid4 k acc = Inr (acc @ map loaded_form us)"
  by (induction us arbitrary: acc) (simp_all add: load_user_as_dict)

text \<open>
  Claim C8, as amended.  For a pool none of whose accounts has an empty id, saving and
  then loading from the same path gives the accounts back in order, equal by id, name
  and token, and by refresh and next up to this: a refresh token that is absent, empty
  or the text "null", and a next-eligible time that is absent or 0, are loaded as
  absent.  The cooldown of every account is what it was.
\<close>

theorem save_load_roundtrip:
  assumes "\<forall>u\<in>set users. id' u \<noteq> []"
  shows "Pool_init (serialize users storage files) storage uuid4 = Inr (map loaded_form users)
         \<and> id' (loaded_form u) = id' u \<and> name (loaded_form u) = name u
         \<and> token (loaded_form u) = token u
         \<and> cooldown (loaded_form u) now = cooldown u now
         \<and> (refresh u \<noteq> Some [] \<and> refresh u \<noteq> Some ''null'' \<and> next' u \<noteq> Some 0 \<longrightarrow>
              loaded_form u = u)"
  using assms
  by (cases u)
    (auto simp add: Pool_init_def serialize_def load_loop_as_dict loaded_form_def cooldown_def
       split: option.splits)

theorem save_load_roundtrip_witness:
  "Pool_init (serialize [account ''a'' (Some ''null'') (Some 5), account ''b'' (Some ''r'') None]
       ''pool.json'' no_files) ''pool.json'' example_uuid4
     = Inr [account ''a'' None (Some 5), account ''b'' (Some ''r'') None]"
proof -
  have ids: "\<forall>u\<in>set [account ''a'' (Some ''null'') (Some 5), account ''b'' (Some ''r'') None].
      id' u \<noteq> []"
    by simp
  show ?thesis
    using save_load_roundtrip [OF ids, of "''pool.json''" no_files example_uuid4]
    by (simp add: loaded_form_def)
qed

theorem save_load_roundtrip_counterexample:
  "Pool_init (serialize [account ''a'' (Some ''r'') (Some 0)] ''pool.json'' no_files)
       ''pool.json'' example_uuid4
     = Inr [account ''a'' (Some ''r'') None]
   \<and> next' (account ''a'' (Some ''r'') (Some 0)) \<noteq> next' (account ''a'' (Some ''r'') None)
   \<and> refresh (account ''a'' (Some ''r'') (Some 0)) \<noteq> Some ''null''"
  by (simp add: Pool_init_def serialize_def no_files_def load_user_def as_dict_def
        field_unless_null_def field_if_present_def User_init_def)

end
